theory Spec2Isabelle
  imports Main "HOL-Library.Sublist"
begin

section \<open>JavaScript values\<close>

text \<open>
  The values that travel through the routes of \<^verbatim>\<open>routes/open/message.ts\<close> and
  \<^verbatim>\<open>routes/closed/closed_message.ts\<close>. \<open>Str\<close> is a string. \<open>Num n\<close> is the number
  whose value is the integer \<open>n\<close>. \<open>Float t\<close> is any other number (one with a fractional
  part, an infinity), given by the text JavaScript prints for it, such as \<^verbatim>\<open>2.5\<close>. A
  field that is missing from an object reads as \<^verbatim>\<open>undefined\<close>, modelled as \<open>None\<close>.
  The query string and the route parameters of a request hold strings only; the JSON body
  holds any of these values.
\<close>

datatype jsval = Str string | Num int | Float string

type_synonym row = "(string \<times> jsval) list"

type_synonym texts = "string \<Rightarrow> string option"

type_synonym fields = "string \<Rightarrow> jsval option"

definition of_text :: "string option \<Rightarrow> jsval option" where
  "of_text t = map_option Str t"

subsection \<open>Decimal digits\<close>

definition digit_char :: "nat \<Rightarrow> char" where
  "digit_char n = ''0123456789'' ! n"

function show_digits :: "int \<Rightarrow> string" where
  "show_digits m =
     (if m < 10 then [digit_char (nat m)]
      else show_digits (m div 10) @ [digit_char (nat (m mod 10))])"
  by pat_completeness auto
termination
  by (relation "measure nat") auto

declare show_digits.simps [simp del]

definition show_int :: "int \<Rightarrow> string" where
  "show_int i = (if i < 0 then CHR ''-'' # show_digits (- i) else show_digits i)"

definition isDigit :: "char \<Rightarrow> bool" where
  "isDigit c = (c \<in> set ''0123456789'')"

definition digit_val :: "char \<Rightarrow> int" where
  "digit_val c = of_char c - 48"

definition digits_val :: "string \<Rightarrow> int" where
  "digits_val ds = foldl (\<lambda>a c. 10 * a + digit_val c) 0 ds"

text \<open>Sign and magnitude of a numeral: an optional \<^verbatim>\<open>+\<close> or \<^verbatim>\<open>-\<close>, then the rest.\<close>

fun split_sign :: "string \<Rightarrow> bool \<times> string" where
  "split_sign [] = (False, [])"
| "split_sign (c # cs) =
     (if c = CHR ''-'' then (True, cs) else if c = CHR ''+'' then (False, cs) else (False, c # cs))"

definition signed :: "bool \<Rightarrow> int \<Rightarrow> int" where
  "signed neg n = (if neg then - n else n)"

text \<open>
  The integer that a decimal numeral names: an optional sign followed by one or more
  digits. Surrounding white space, hexadecimal, fractions and exponents are not numerals
  of this model.
\<close>

definition int_literal :: "string \<Rightarrow> int option" where
  "int_literal s =
     (case split_sign s of (neg, ds) \<Rightarrow>
        if ds \<noteq> [] \<and> list_all isDigit ds then Some (signed neg (digits_val ds)) else None)"

subsection \<open>Numbers are doubles\<close>

text \<open>
  The numbers that the numeric reading of a query string can give: \<^verbatim>\<open>NaN\<close>, a finite
  double whose value is an integer, or an infinity.
\<close>

datatype jsnum = NaN | Fin int | PosInf | NegInf

text \<open>The number of binary digits of a positive integer.\<close>

function bits :: "int \<Rightarrow> nat" where
  "bits m = (if m \<le> 0 then 0 else Suc (bits (m div 2)))"
  by pat_completeness auto
termination
  by (relation "measure nat") auto

declare bits.simps [simp del]

text \<open>
  The double nearest to a non-negative integer: 53 binary digits are kept, the rest is
  rounded to nearest, a tie going to the even neighbour. Up to \<open>2^53 = 9007199254740992\<close>
  every integer is a double.
\<close>

definition round_double :: "int \<Rightarrow> int" where
  "round_double m =
     (if m < 9007199254740992 then m
      else (let p = 2 ^ (bits m - 53); q = m div p; r = m mod p
            in (if p < 2 * r \<or> (p = 2 * r \<and> odd q) then q + 1 else q) * p))"

text \<open>What rounds to \<open>2^1024\<close> or beyond is an infinity.\<close>

definition to_double :: "int \<Rightarrow> jsnum" where
  "to_double n =
     (let m = round_double \<bar>n\<bar>
      in if 2 ^ 1024 \<le> m then (if n < 0 then NegInf else PosInf)
         else Fin (if n < 0 then - m else m))"

text \<open>
  JavaScript's unary \<^verbatim>\<open>+\<close> on \<^verbatim>\<open>request.query.x\<close>: \<^verbatim>\<open>undefined\<close> and what is not
  a numeral read as \<^verbatim>\<open>NaN\<close>, a numeral reads as the double nearest to its integer.
\<close>

definition toNumber :: "string option \<Rightarrow> jsnum" where
  "toNumber t =
     (case t of
        None \<Rightarrow> NaN
      | Some s \<Rightarrow> (case int_literal s of None \<Rightarrow> NaN | Some n \<Rightarrow> to_double n))"

text \<open>Comparisons with \<^verbatim>\<open>NaN\<close> are false.\<close>

fun num_above :: "jsnum \<Rightarrow> int \<Rightarrow> bool" where
  "num_above (Fin n) k = (k < n)"
| "num_above PosInf k = True"
| "num_above _ k = False"

fun num_from :: "jsnum \<Rightarrow> int \<Rightarrow> bool" where
  "num_from (Fin n) k = (k \<le> n)"
| "num_from PosInf k = True"
| "num_from _ k = False"

text \<open>\<^verbatim>\<open>limit + offset\<close>: the sum of two doubles is the double nearest to the exact sum.\<close>

fun js_add :: "jsnum \<Rightarrow> jsnum \<Rightarrow> jsnum" where
  "js_add (Fin a) (Fin b) = to_double (a + b)"
| "js_add NaN _ = NaN"
| "js_add _ NaN = NaN"
| "js_add PosInf NegInf = NaN"
| "js_add NegInf PosInf = NaN"
| "js_add PosInf _ = PosInf"
| "js_add _ PosInf = PosInf"
| "js_add NegInf _ = NegInf"
| "js_add _ NegInf = NegInf"

subsection \<open>The text of a number\<close>

text \<open>
  JavaScript prints a number with the fewest significant digits that still read back as
  the same double. \<open>candidates d k\<close> are the decimals of \<open>k\<close> significant digits next
  to the double \<open>d\<close> that read back as \<open>d\<close>; \<open>printed_value d\<close> is the one with the
  fewest digits, the nearest to \<open>d\<close> when there are two, the one with the even last digit
  when both are as near.
\<close>

definition candidates :: "int \<Rightarrow> nat \<Rightarrow> int list" where
  "candidates d k =
     (let p = 10 ^ (length (show_int d) - k); s = d div p
      in filter (\<lambda>v. to_double v = Fin d) [s * p, (s + 1) * p])"

definition printed_value :: "int \<Rightarrow> int" where
  "printed_value d =
     (case find (\<lambda>k. candidates d k \<noteq> []) [1 ..< Suc (length (show_int d))] of
        None \<Rightarrow> d
      | Some k \<Rightarrow>
          (case candidates d k of
             [] \<Rightarrow> d
           | [v] \<Rightarrow> v
           | a # b # _ \<Rightarrow>
               if d - a < b - d then a else if b - d < d - a then b
               else if even (a div 10 ^ (length (show_int d) - k)) then a else b))"

text \<open>From 22 digits on the text has an exponent: \<^verbatim>\<open>1e+21\<close>.\<close>

definition exponent_text :: "string \<Rightarrow> string" where
  "exponent_text ds =
     (case rev (dropWhile (\<lambda>c. c = CHR ''0'') (rev ds)) of
        [] \<Rightarrow> []
      | c # cs \<Rightarrow>
          c # (if cs = [] then [] else CHR ''.'' # cs) @ ''e+'' @ show_int (int (length ds) - 1))"

text \<open>
  The text of the number \<open>n\<close>. Up to \<open>2^53\<close> in magnitude it is the decimal numeral of
  \<open>n\<close>.
\<close>

definition number_text :: "int \<Rightarrow> string" where
  "number_text n =
     (if \<bar>n\<bar> \<le> 9007199254740992 then show_int n
      else (let ds = show_int (printed_value \<bar>n\<bar>)
            in (if n < 0 then ''-'' else []) @
               (if length ds \<le> 21 then ds else exponent_text ds)))"

fun num_text :: "jsnum \<Rightarrow> string" where
  "num_text NaN = ''NaN''"
| "num_text (Fin n) = number_text n"
| "num_text PosInf = ''Infinity''"
| "num_text NegInf = ''-Infinity''"

text \<open>A number as a value of a response.\<close>

fun num_val :: "jsnum \<Rightarrow> jsval" where
  "num_val (Fin n) = Num n"
| "num_val x = Float (num_text x)"

text \<open>What a template literal \<^verbatim>\<open>${v}\<close> puts into the string.\<close>

fun to_str :: "jsval option \<Rightarrow> string" where
  "to_str None = ''undefined''"
| "to_str (Some (Str s)) = s"
| "to_str (Some (Num n)) = number_text n"
| "to_str (Some (Float t)) = t"

text \<open>
  \<^verbatim>\<open>parseInt\<close>: the value is turned into a string, then an optional sign and the
  longest run of decimal digits is read; no digit at all gives \<^verbatim>\<open>NaN\<close>, here
  \<open>None\<close>. The routes only compare the result with 1 and 3, which reading it as a double
  does not change. Leading white space and the \<^verbatim>\<open>0x\<close> prefix are not modelled.
\<close>

definition parseInt_str :: "string \<Rightarrow> int option" where
  "parseInt_str s =
     (case split_sign s of (neg, cs) \<Rightarrow>
        if takeWhile isDigit cs = [] then None
        else Some (signed neg (digits_val (takeWhile isDigit cs))))"

definition parseInt :: "jsval option \<Rightarrow> int option" where
  "parseInt v = parseInt_str (to_str v)"

fun num_ge :: "int option \<Rightarrow> int \<Rightarrow> bool" where
  "num_ge None k = False"
| "num_ge (Some n) k = (k \<le> n)"

fun num_le :: "int option \<Rightarrow> int \<Rightarrow> bool" where
  "num_le None k = False"
| "num_le (Some n) k = (n \<le> k)"


text \<open>\<^verbatim>\<open>v.length == k\<close>: only a string has a length.\<close>

fun length_is :: "jsval option \<Rightarrow> nat \<Rightarrow> bool" where
  "length_is (Some (Str s)) k = (length s = k)"
| "length_is _ k = False"

text \<open>
  \<^verbatim>\<open>id > max\<close> on the \<^verbatim>\<open>demoid\<close> fields of rows, which are integers of the
  database.
\<close>

fun js_gt :: "jsval option \<Rightarrow> jsval option \<Rightarrow> bool" where
  "js_gt (Some (Num a)) (Some (Num b)) = (b < a)"
| "js_gt _ _ = False"

text \<open>\<^verbatim>\<open>Array.prototype.reduce\<close> without an initial value: a TypeError on the empty array.\<close>

fun reduce :: "('a \<Rightarrow> 'a \<Rightarrow> 'a) \<Rightarrow> 'a list \<Rightarrow> 'a option" where
  "reduce f [] = None"
| "reduce f (x # xs) = Some (foldl f x xs)"

section \<open>validationFunctions\<close>

text \<open>
  Modelled from the spec: \<^verbatim>\<open>validationFunctions.isStringProvided\<close> of
  \<^verbatim>\<open>core/utilities\<close>, which the routes import and which is not among the source
  files: the candidate is a string (correct type) and is not empty.
\<close>

fun isStringProvided :: "jsval option \<Rightarrow> bool" where
  "isStringProvided (Some (Str s)) = (s \<noteq> [])"
| "isStringProvided _ = False"

text \<open>
  Modelled from the spec: \<^verbatim>\<open>validationFunctions.isNumberProvided\<close> of
  \<^verbatim>\<open>core/utilities\<close>, not among the source files: the candidate is a number, or
  a string that parses as an integer. Range checks are written by each route.
\<close>

fun isNumberProvided :: "jsval option \<Rightarrow> bool" where
  "isNumberProvided None = False"
| "isNumberProvided (Some (Num n)) = True"
| "isNumberProvided (Some (Float t)) = True"
| "isNumberProvided (Some (Str s)) = (int_literal s \<noteq> None)"

section \<open>Requests, responses and outcomes\<close>

record request =
  query :: texts
  params :: texts
  body :: fields

datatype payload =
    Message string
  | Entry_text string
  | Entry_row row
  | Entries_text "string list"
  | Entries_rows "row list"
  | Paged "row list" row
  | Empty_object

record response =
  status :: nat
  payload :: payload

text \<open>\<^verbatim>\<open>response.send(x)\<close> answers 200; \<^verbatim>\<open>response.status(k).send(x)\<close> answers k.\<close>

definition send :: "payload \<Rightarrow> response" where
  "send p = \<lparr>status = 200, payload = p\<rparr>"

definition status_send :: "nat \<Rightarrow> payload \<Rightarrow> response" where
  "status_send k p = \<lparr>status = k, payload = p\<rparr>"

record db_error =
  detail :: "string option"

datatype failure = Rejected db_error | TypeError

text \<open>
  How a request ends inside the router: a response was sent, an exception or a rejected
  promise left the handler, or every handler passed the request on.
\<close>

datatype outcome = Sent response | Uncaught failure | Unhandled

section \<open>The database\<close>

text \<open>
  The tables. The schema is not among the source files: \<open>demoid_max\<close> is the largest
  value of the type of the \<^verbatim>\<open>DemoID\<close> column (\<open>2147483647\<close> for a serial column),
  \<open>demo_seq\<close> the next value of its sequence. The priority, the publication year and
  the rating are taken as 32-bit integer columns, the other columns as text.
\<close>

record demo_row =
  demoid :: int
  name :: string
  message :: string
  priority :: int

record book =
  isbn13 :: string
  authors :: string
  publication_year :: int
  title :: string
  rating_avg :: int

record db =
  demo :: "demo_row list"
  demo_seq :: int
  demoid_max :: int
  books :: "book list"

text \<open>One constructor per SQL text of the routes, carrying its positional parameters.\<close>

datatype stmt =
    SelectOffset jsnum jsnum
  | SelectCursor jsnum jsnum
  | CountDemo
  | InsertDemo "jsval option" "jsval option" "jsval option"
  | DeleteByName "jsval option"
  | DeleteByPriority "jsval option"
  | UpdateMessage "jsval option" "jsval option"
  | SelectByPriority "jsval option"
  | BookByIsbn "jsval option"
  | BooksByAuthor "jsval option"
  | BooksByYear "jsval option"
  | BooksByRating "jsval option"

record qresult =
  rowCount :: nat
  rows :: "row list"

definition result_of :: "row list \<Rightarrow> qresult" where
  "result_of rs = \<lparr>rowCount = length rs, rows = rs\<rparr>"

definition demo_public :: "demo_row \<Rightarrow> row" where
  "demo_public r = [(''name'', Str (name r)), (''message'', Str (message r)),
                    (''priority'', Num (priority r))]"

text \<open>The field names of a row are all lower case: \<^verbatim>\<open>DemoID\<close> arrives as \<^verbatim>\<open>demoid\<close>.\<close>

definition demo_keyed :: "demo_row \<Rightarrow> row" where
  "demo_keyed r = demo_public r @ [(''demoid'', Num (demoid r))]"

definition demo_star :: "demo_row \<Rightarrow> row" where
  "demo_star r = (''demoid'', Num (demoid r)) # demo_public r"

definition book_row :: "book \<Rightarrow> row" where
  "book_row b = [(''isbn13'', Str (isbn13 b)), (''authors'', Str (authors b)),
                 (''publication_year'', Num (publication_year b)), (''title'', Str (title b)),
                 (''rating_avg'', Num (rating_avg b))]"

text \<open>
  Every parameter reaches the database as text; \<^verbatim>\<open>undefined\<close> reaches it as NULL,
  here \<open>None\<close>.
\<close>

fun sql_text :: "jsval option \<Rightarrow> string option" where
  "sql_text None = None"
| "sql_text (Some v) = Some (to_str (Some v))"

text \<open>
  The database reads the text of an integer parameter: it must be a numeral, and its
  integer must lie in the range of the type, \<open>- bound - 1\<close> to \<open>bound\<close>.
\<close>

definition sql_integer :: "int \<Rightarrow> string \<Rightarrow> int option" where
  "sql_integer bound t =
     (case int_literal t of
        None \<Rightarrow> None
      | Some n \<Rightarrow> if - bound - 1 \<le> n \<and> n \<le> bound then Some n else None)"

definition int4_max :: int where
  "int4_max = 2147483647"

definition int8_max :: int where
  "int8_max = 9223372036854775807"

text \<open>
  SQL \<^verbatim>\<open>LIKE\<close>: \<^verbatim>\<open>%\<close> matches any run of characters, \<^verbatim>\<open>_\<close> any one, and a
  backslash makes the character after it stand for itself.
\<close>

datatype like_token = Any_run | Any_one | Literal char

fun like_tokens :: "string \<Rightarrow> like_token list" where
  "like_tokens [] = []"
| "like_tokens [p] =
     (if p = CHR ''%'' then [Any_run] else if p = CHR ''_'' then [Any_one] else [Literal p])"
| "like_tokens (p # q # ps) =
     (if p = CHR 0x5C then Literal q # like_tokens ps
      else if p = CHR ''%'' then Any_run # like_tokens (q # ps)
      else if p = CHR ''_'' then Any_one # like_tokens (q # ps)
      else Literal p # like_tokens (q # ps))"

fun like_match :: "like_token list \<Rightarrow> string \<Rightarrow> bool" where
  "like_match [] t = (t = [])"
| "like_match (Any_run # ps) [] = like_match ps []"
| "like_match (Any_run # ps) (c # t) = (like_match ps (c # t) \<or> like_match (Any_run # ps) t)"
| "like_match (Any_one # ps) [] = False"
| "like_match (Any_one # ps) (c # t) = like_match ps t"
| "like_match (Literal p # ps) [] = False"
| "like_match (Literal p # ps) (c # t) = (p = c \<and> like_match ps t)"

definition like :: "string \<Rightarrow> string \<Rightarrow> bool" where
  "like pattern t = like_match (like_tokens pattern) t"

definition no_detail :: db_error where
  "no_detail = \<lparr>detail = None\<rparr>"

definition unique_violation :: "string \<Rightarrow> db_error" where
  "unique_violation n = \<lparr>detail = Some (''Key (name)=('' @ n @ '') already exists.'')\<rparr>"

text \<open>
  The effect of each statement on the tables. \<^verbatim>\<open>ORDER BY DemoID\<close> is
  \<open>sort_key demoid\<close>, \<^verbatim>\<open>LIMIT\<close> is \<open>take\<close>, \<^verbatim>\<open>OFFSET\<close> is \<open>drop\<close>,
  \<^verbatim>\<open>WHERE\<close> is \<open>filter\<close>; \<^verbatim>\<open>LIMIT\<close> and \<^verbatim>\<open>OFFSET\<close> take 64-bit integers
  that are not negative. A comparison with NULL selects no row. A parameter that does not
  fit its column fails without a detail, before anything is done. The name column is
  unique: an insert of a name that is already stored fails with a detail that ends in
  \<^verbatim>\<open>already exists.\<close>, after it has taken a value of the sequence.
\<close>

fun exec :: "stmt \<Rightarrow> db \<Rightarrow> (db_error + qresult) \<times> db" where
  "exec (SelectOffset l off) d =
     (case (sql_integer int8_max (num_text l), sql_integer int8_max (num_text off)) of
        (Some lim, Some skip) \<Rightarrow>
          if lim < 0 \<or> skip < 0 then (Inl no_detail, d)
          else (Inr (result_of (map demo_public
                       (take (nat lim) (drop (nat skip) (sort_key demoid (demo d)))))), d)
      | _ \<Rightarrow> (Inl no_detail, d))"
| "exec (SelectCursor l c) d =
     (case (sql_integer int8_max (num_text l), sql_integer (demoid_max d) (num_text c)) of
        (Some lim, Some key) \<Rightarrow>
          if lim < 0 then (Inl no_detail, d)
          else (Inr (result_of (map demo_keyed
                       (take (nat lim)
                          (sort_key demoid (filter (\<lambda>r. key < demoid r) (demo d)))))), d)
      | _ \<Rightarrow> (Inl no_detail, d))"
| "exec CountDemo d =
     (Inr (result_of [ [(''exact_count'', Str (show_int (int (length (demo d)))))]]), d)"
| "exec (InsertDemo n m p) d =
     (case (sql_text n, sql_text m, sql_text p) of
        (Some n', Some m', Some pt) \<Rightarrow>
          (case sql_integer int4_max pt of
             None \<Rightarrow> (Inl no_detail, d)
           | Some p' \<Rightarrow>
               if demoid_max d < demo_seq d
               then (Inl no_detail, d\<lparr>demo_seq := demo_seq d + 1\<rparr>)
               else if n' \<in> set (map name (demo d))
               then (Inl (unique_violation n'), d\<lparr>demo_seq := demo_seq d + 1\<rparr>)
               else (let r = \<lparr>demoid = demo_seq d, name = n', message = m', priority = p'\<rparr>
                     in (Inr (result_of [demo_star r]),
                         d\<lparr>demo := demo d @ [r], demo_seq := demo_seq d + 1\<rparr>)))
      | _ \<Rightarrow> (Inl no_detail, d))"
| "exec (DeleteByName n) d =
     (Inr (result_of (map demo_star (filter (\<lambda>r. sql_text n = Some (name r)) (demo d)))),
      d\<lparr>demo := filter (\<lambda>r. sql_text n \<noteq> Some (name r)) (demo d)\<rparr>)"
| "exec (DeleteByPriority p) d =
     (case sql_text p of
        None \<Rightarrow> (Inr (result_of []), d)
      | Some pt \<Rightarrow>
          (case sql_integer int4_max pt of
             None \<Rightarrow> (Inl no_detail, d)
           | Some k \<Rightarrow>
               (Inr (result_of (map demo_star (filter (\<lambda>r. priority r = k) (demo d)))),
                d\<lparr>demo := filter (\<lambda>r. priority r \<noteq> k) (demo d)\<rparr>)))"
| "exec (UpdateMessage m n) d =
     (case sql_text m of
        None \<Rightarrow> (Inl no_detail, d)
      | Some m' \<Rightarrow>
          (Inr (result_of (map (\<lambda>r. demo_star (r\<lparr>message := m'\<rparr>))
                             (filter (\<lambda>r. sql_text n = Some (name r)) (demo d)))),
           d\<lparr>demo := map (\<lambda>r. if sql_text n = Some (name r) then r\<lparr>message := m'\<rparr> else r)
                         (demo d)\<rparr>))"
| "exec (SelectByPriority p) d =
     (case sql_text p of
        None \<Rightarrow> (Inr (result_of []), d)
      | Some pt \<Rightarrow>
          (case sql_integer int4_max pt of
             None \<Rightarrow> (Inl no_detail, d)
           | Some k \<Rightarrow>
               (Inr (result_of (map demo_public (filter (\<lambda>r. priority r = k) (demo d)))), d)))"
| "exec (BookByIsbn i) d =
     (Inr (result_of (map book_row (filter (\<lambda>b. sql_text i = Some (isbn13 b)) (books d)))), d)"
| "exec (BooksByAuthor a) d =
     (case sql_text a of
        None \<Rightarrow> (Inr (result_of []), d)
      | Some a' \<Rightarrow>
          (Inr (result_of (map book_row
                  (filter (\<lambda>b. like (''%'' @ a' @ ''%'') (authors b)) (books d)))), d))"
| "exec (BooksByYear y) d =
     (case sql_text y of
        None \<Rightarrow> (Inr (result_of []), d)
      | Some yt \<Rightarrow>
          (case sql_integer int4_max yt of
             None \<Rightarrow> (Inl no_detail, d)
           | Some k \<Rightarrow>
               (Inr (result_of (map book_row
                       (filter (\<lambda>b. publication_year b = k) (books d)))), d)))"
| "exec (BooksByRating g) d =
     (case sql_text g of
        None \<Rightarrow> (Inr (result_of []), d)
      | Some gt \<Rightarrow>
          (case sql_integer int4_max gt of
             None \<Rightarrow> (Inl no_detail, d)
           | Some k \<Rightarrow>
               (Inr (result_of (map book_row (filter (\<lambda>b. rating_avg b = k) (books d)))), d)))"

text \<open>
  The world a handler runs in: the tables, whether the database is failing (then every
  query is rejected with that error), and the statements issued so far.
\<close>

record world =
  store :: db
  outage :: "db_error option"
  issued :: "stmt list"

definition pool_query :: "stmt \<Rightarrow> world \<Rightarrow> (db_error + qresult) \<times> world" where
  "pool_query s w =
     (case outage w of
        Some e \<Rightarrow> (Inl e, w\<lparr>issued := issued w @ [s]\<rparr>)
      | None \<Rightarrow>
          (case exec s (store w) of
             (r, d') \<Rightarrow> (r, w\<lparr>store := d', issued := issued w @ [s]\<rparr>)))"

type_synonym result = "outcome \<times> world"

text \<open>
  A middleware gets the request, the world, and what \<^verbatim>\<open>next()\<close> leads to. The
  handlers registered for one method and path run in registration order.
\<close>

type_synonym middleware = "request \<Rightarrow> world \<Rightarrow> result \<Rightarrow> result"

fun chain :: "middleware list \<Rightarrow> request \<Rightarrow> world \<Rightarrow> result" where
  "chain [] req w = (Unhandled, w)"
| "chain (h # hs) req w = h req w (chain hs req w)"

definition server_error :: response where
  "server_error = status_send 500 (Message ''server error - contact support'')"

text \<open>A handler that answers by itself and never calls \<^verbatim>\<open>next()\<close>.\<close>

definition final :: "(request \<Rightarrow> world \<Rightarrow> result) \<Rightarrow> middleware" where
  "final h req w nxt = h req w"

text \<open>A field of a JSON object is left out when its value is \<^verbatim>\<open>undefined\<close>.\<close>

fun field :: "string \<Rightarrow> jsval option \<Rightarrow> row" where
  "field k None = []"
| "field k (Some v) = [(k, v)]"

section \<open>routes/closed/closed\_message.ts\<close>

definition format_closed :: "row \<Rightarrow> row" where
  "format_closed resultRow =
     resultRow @
     [(''formatted'', Str (''{'' @ to_str (map_of resultRow ''priority'') @ ''} - ['' @
                           to_str (map_of resultRow ''name'') @ ''] says: '' @
                           to_str (map_of resultRow ''message'')))]"

text \<open>
  \<^verbatim>\<open>isNumberProvided(request.query.limit) && +request.query.limit > 0 ? +request.query.limit : 10\<close>
  and the same shape for \<^verbatim>\<open>offset\<close> and \<^verbatim>\<open>cursor\<close> with \<^verbatim>\<open>>= 0\<close> and 0.
\<close>

definition limit_of :: "request \<Rightarrow> jsnum" where
  "limit_of req =
     (if isNumberProvided (of_text (query req ''limit'')) \<and>
         num_above (toNumber (query req ''limit'')) 0
      then toNumber (query req ''limit'') else Fin 10)"

definition offset_of :: "request \<Rightarrow> jsnum" where
  "offset_of req =
     (if isNumberProvided (of_text (query req ''offset'')) \<and>
         num_from (toNumber (query req ''offset'')) 0
      then toNumber (query req ''offset'') else Fin 0)"

definition cursor_of :: "request \<Rightarrow> jsnum" where
  "cursor_of req =
     (if isNumberProvided (of_text (query req ''cursor'')) \<and>
         num_from (toNumber (query req ''cursor'')) 0
      then toNumber (query req ''cursor'') else Fin 0)"

text \<open>
  \<^verbatim>\<open>libraryRouter.get('/offset')\<close>: two awaited queries outside any \<^verbatim>\<open>try\<close>, so a
  rejection leaves the handler.
\<close>

definition libraryRouter_get_offset :: "request \<Rightarrow> world \<Rightarrow> result" where
  "libraryRouter_get_offset req w =
     (let limit = limit_of req; offset = offset_of req in
      case pool_query (SelectOffset limit offset) w of
        (Inl e, w1) \<Rightarrow> (Uncaught (Rejected e), w1)
      | (Inr page, w1) \<Rightarrow>
          (case pool_query CountDemo w1 of
             (Inl e, w2) \<Rightarrow> (Uncaught (Rejected e), w2)
           | (Inr res, w2) \<Rightarrow>
               (case rows res of
                  [] \<Rightarrow> (Uncaught TypeError, w2)
                | r0 # _ \<Rightarrow>
                    (Sent (send (Paged (map format_closed (rows page))
                       (field ''totalRecords'' (map_of r0 ''exact_count'') @
                        [(''limit'', num_val limit), (''offset'', num_val offset),
                         (''nextPage'', num_val (js_add limit offset))]))), w2))))"

text \<open>\<^verbatim>\<open>({ demoid, ...rest }) => rest\<close>\<close>

definition strip_demoid :: "row \<Rightarrow> row" where
  "strip_demoid r = filter (\<lambda>kv. fst kv \<noteq> ''demoid'') r"

text \<open>\<^verbatim>\<open>(max, id) => (id > max ? id : max)\<close>\<close>

definition larger :: "jsval option \<Rightarrow> jsval option \<Rightarrow> jsval option" where
  "larger mx i = (if js_gt i mx then i else mx)"

text \<open>
  \<^verbatim>\<open>libraryRouter.get('/cursor')\<close>: the body of the response is built before it is
  sent, so the TypeError of \<^verbatim>\<open>reduce\<close> on no rows leaves the handler with nothing sent.
\<close>

definition libraryRouter_get_cursor :: "request \<Rightarrow> world \<Rightarrow> result" where
  "libraryRouter_get_cursor req w =
     (let limit = limit_of req; cursor = cursor_of req in
      case pool_query (SelectCursor limit cursor) w of
        (Inl e, w1) \<Rightarrow> (Uncaught (Rejected e), w1)
      | (Inr page, w1) \<Rightarrow>
          (case pool_query CountDemo w1 of
             (Inl e, w2) \<Rightarrow> (Uncaught (Rejected e), w2)
           | (Inr res, w2) \<Rightarrow>
               (case rows res of
                  [] \<Rightarrow> (Uncaught TypeError, w2)
                | r0 # _ \<Rightarrow>
                    (case reduce larger (map (\<lambda>r. map_of r ''demoid'') (rows page)) of
                       None \<Rightarrow> (Uncaught TypeError, w2)
                     | Some mx \<Rightarrow>
                         (Sent (send (Paged (map format_closed (map strip_demoid (rows page)))
                            (field ''totalRecords'' (map_of r0 ''exact_count'') @
                             [(''limit'', num_val limit)] @ field ''cursor'' mx))), w2)))))"

definition missing_information :: response where
  "missing_information =
     status_send 400 (Message ''Missing required information - please refer to documentation'')"

definition invalid_priority :: response where
  "invalid_priority =
     status_send 400 (Message ''Invalid or missing Priority - please refer to documentation'')"

definition libraryRouter_post_body :: middleware where
  "libraryRouter_post_body req w nxt =
     (if isStringProvided (body req ''name'') \<and> isStringProvided (body req ''message'')
      then nxt else (Sent missing_information, w))"

definition libraryRouter_post_priority :: middleware where
  "libraryRouter_post_priority req w nxt =
     (if isNumberProvided (body req ''priority'') \<and>
         num_ge (parseInt (body req ''priority'')) 1 \<and>
         num_le (parseInt (body req ''priority'')) 3
      then nxt else (Sent invalid_priority, w))"

text \<open>\<^verbatim>\<open>error.detail && error.detail.endsWith('exists.')\<close>\<close>

definition ends_exists :: "db_error \<Rightarrow> bool" where
  "ends_exists e = (case detail e of None \<Rightarrow> False | Some d \<Rightarrow> d \<noteq> [] \<and> suffix ''exists.'' d)"

definition libraryRouter_post_insert :: "request \<Rightarrow> world \<Rightarrow> result" where
  "libraryRouter_post_insert req w =
     (case pool_query (InsertDemo (body req ''name'') (body req ''message'')
                         (body req ''priority'')) w of
        (Inr res, w1) \<Rightarrow>
          (case rows res of
             [] \<Rightarrow> (Sent server_error, w1)
           | r0 # _ \<Rightarrow> (Sent (status_send 201 (Entry_row (format_closed r0))), w1))
      | (Inl e, w1) \<Rightarrow>
          (if ends_exists e then (Sent (status_send 400 (Message ''Name exists'')), w1)
           else (Sent server_error, w1)))"

definition libraryRouter_post :: "request \<Rightarrow> world \<Rightarrow> result" where
  "libraryRouter_post =
     chain [libraryRouter_post_body, libraryRouter_post_priority, final libraryRouter_post_insert]"

definition name_not_found :: response where
  "name_not_found = status_send 404 (Message ''Name not found'')"

definition libraryRouter_delete_name :: "request \<Rightarrow> world \<Rightarrow> result" where
  "libraryRouter_delete_name req w =
     (case pool_query (DeleteByName (of_text (params req ''name''))) w of
        (Inr res, w1) \<Rightarrow>
          (if rowCount res = 1 then
             (case rows res of
                [] \<Rightarrow> (Sent server_error, w1)
              | r0 # _ \<Rightarrow>
                  (Sent (send (Entry_text
                     (''Deleted: '' @ to_str (map_of (format_closed r0) ''formatted'')))), w1))
           else (Sent name_not_found, w1))
      | (Inl e, w1) \<Rightarrow> (Sent server_error, w1))"

section \<open>routes/open/message.ts\<close>

text \<open>
  The \<^verbatim>\<open>format\<close> of this file: the one for messages is commented out, and the one in
  force reads the columns of a book.
\<close>

definition format :: "row \<Rightarrow> string" where
  "format resultRow =
     ''{'' @ to_str (map_of resultRow ''title'') @ ''} by ['' @
     to_str (map_of resultRow ''authors'') @ ''] - ISBN: ['' @
     to_str (map_of resultRow ''isbn13'') @ ''], published in ['' @
     to_str (map_of resultRow ''publication_year'') @ ''], average rating: ['' @
     to_str (map_of resultRow ''rating_avg'') @ '']''"

definition mwValidPriorityQuery :: middleware where
  "mwValidPriorityQuery req w nxt =
     (if isNumberProvided (of_text (query req ''priority'')) \<and>
         num_ge (parseInt (of_text (query req ''priority''))) 1 \<and>
         num_le (parseInt (of_text (query req ''priority''))) 3
      then nxt else (Sent invalid_priority, w))"

definition mwValidNameMessageBody :: middleware where
  "mwValidNameMessageBody req w nxt =
     (if isStringProvided (body req ''name'') \<and> isStringProvided (body req ''message'')
      then nxt else (Sent missing_information, w))"

definition messageRouter_post_priority :: middleware where
  "messageRouter_post_priority req w nxt =
     (if isNumberProvided (body req ''priority'') \<and>
         num_ge (parseInt (body req ''priority'')) 1 \<and>
         num_le (parseInt (body req ''priority'')) 3
      then nxt else (Sent invalid_priority, w))"

text \<open>\<^verbatim>\<open>error.detail != undefined && error.detail.endsWith('already exists.')\<close>\<close>

definition ends_already_exists :: "db_error \<Rightarrow> bool" where
  "ends_already_exists e =
     (case detail e of None \<Rightarrow> False | Some d \<Rightarrow> suffix ''already exists.'' d)"

definition messageRouter_post_insert :: "request \<Rightarrow> world \<Rightarrow> result" where
  "messageRouter_post_insert req w =
     (case pool_query (InsertDemo (body req ''name'') (body req ''message'')
                         (body req ''priority'')) w of
        (Inr res, w1) \<Rightarrow>
          (case rows res of
             [] \<Rightarrow> (Sent server_error, w1)
           | r0 # _ \<Rightarrow> (Sent (status_send 201 (Entry_text (format r0))), w1))
      | (Inl e, w1) \<Rightarrow>
          (if ends_already_exists e then (Sent (status_send 400 (Message ''Name exists'')), w1)
           else (Sent server_error, w1)))"

definition messageRouter_post :: "request \<Rightarrow> world \<Rightarrow> result" where
  "messageRouter_post =
     chain [mwValidNameMessageBody, messageRouter_post_priority, final messageRouter_post_insert]"






definition invalid_isbn13 :: response where
  "invalid_isbn13 =
     status_send 400 (Message ''Invalid or missing isbn13 - please refer to documentation'')"

definition myValidIsbn13Param :: middleware where
  "myValidIsbn13Param req w nxt =
     (if isNumberProvided (of_text (params req ''isbn13'')) \<and> length_is (of_text (params req ''isbn13'')) 13
      then nxt else (Sent invalid_isbn13, w))"

definition isbn13_not_found :: response where
  "isbn13_not_found =
     status_send 404 (Message ''No book associated with this isbn13 was found'')"

definition messageRouter_get_isbn13_query :: "request \<Rightarrow> world \<Rightarrow> result" where
  "messageRouter_get_isbn13_query req w =
     (case pool_query (BookByIsbn (of_text (params req ''isbn13''))) w of
        (Inr res, w1) \<Rightarrow>
          (if rowCount res = 1 then
             (case rows res of
                [] \<Rightarrow> (Sent (send Empty_object), w1)
              | r0 # _ \<Rightarrow> (Sent (send (Entry_row r0)), w1))
           else (Sent isbn13_not_found, w1))
      | (Inl e, w1) \<Rightarrow> (Sent server_error, w1))"

definition messageRouter_get_isbn13 :: "request \<Rightarrow> world \<Rightarrow> result" where
  "messageRouter_get_isbn13 = chain [myValidIsbn13Param, final messageRouter_get_isbn13_query]"




definition no_priority_messages :: "request \<Rightarrow> response" where
  "no_priority_messages req =
     status_send 404
       (Message (''No Priority '' @ to_str (of_text (query req ''priority'')) @ '' messages found''))"



definition messageRouter_put_update :: "request \<Rightarrow> world \<Rightarrow> result" where
  "messageRouter_put_update req w =
     (case pool_query (UpdateMessage (body req ''message'') (body req ''name'')) w of
        (Inr res, w1) \<Rightarrow>
          (if rowCount res = 1 then
             (case rows res of
                [] \<Rightarrow> (Sent server_error, w1)
              | r0 # _ \<Rightarrow> (Sent (send (Entry_text (''Updated: '' @ format r0))), w1))
           else (Sent name_not_found, w1))
      | (Inl e, w1) \<Rightarrow> (Sent server_error, w1))"

definition messageRouter_put :: "request \<Rightarrow> world \<Rightarrow> result" where
  "messageRouter_put = chain [mwValidNameMessageBody, final messageRouter_put_update]"

definition messageRouter_delete_query :: "request \<Rightarrow> world \<Rightarrow> result" where
  "messageRouter_delete_query req w =
     (case pool_query (DeleteByPriority (of_text (query req ''priority''))) w of
        (Inr res, w1) \<Rightarrow>
          (if 0 < rowCount res then (Sent (send (Entries_text (map format (rows res)))), w1)
           else (Sent (no_priority_messages req), w1))
      | (Inl e, w1) \<Rightarrow> (Sent server_error, w1))"

definition messageRouter_delete :: "request \<Rightarrow> world \<Rightarrow> result" where
  "messageRouter_delete = chain [mwValidPriorityQuery, final messageRouter_delete_query]"

definition messageRouter_delete_name :: "request \<Rightarrow> world \<Rightarrow> result" where
  "messageRouter_delete_name req w =
     (case pool_query (DeleteByName (of_text (params req ''name''))) w of
        (Inr res, w1) \<Rightarrow>
          (if rowCount res = 1 then
             (case rows res of
                [] \<Rightarrow> (Sent server_error, w1)
              | r0 # _ \<Rightarrow> (Sent (send (Entry_text (''Deleted: '' @ format r0))), w1))
           else (Sent name_not_found, w1))
      | (Inl e, w1) \<Rightarrow> (Sent server_error, w1))"

section \<open>Sample data\<close>

definition no_texts :: texts where
  "no_texts = (\<lambda>k. None)"

definition no_fields :: fields where
  "no_fields = (\<lambda>k. None)"

definition sample_demo :: "demo_row list" where
  "sample_demo =
     [\<lparr>demoid = 1, name = ''ann'', message = ''hello'', priority = 1\<rparr>,
      \<lparr>demoid = 2, name = ''bob'', message = ''hi'', priority = 2\<rparr>,
      \<lparr>demoid = 4, name = ''cat'', message = ''hey'', priority = 2\<rparr>]"

definition sample_books :: "book list" where
  "sample_books =
     [\<lparr>isbn13 = ''9780439023480'', authors = ''Suzanne Collins'', publication_year = 2008,
       title = ''The Hunger Games'', rating_avg = 4\<rparr>]"

definition sample_db :: db where
  "sample_db =
     \<lparr>demo = sample_demo, demo_seq = 5, demoid_max = 2147483647, books = sample_books\<rparr>"

definition sample_world :: world where
  "sample_world = \<lparr>store = sample_db, outage = None, issued = []\<rparr>"

definition paging_request :: "string \<Rightarrow> string \<Rightarrow> string \<Rightarrow> request" where
  "paging_request l k v =
     \<lparr>query = no_texts(''limit'' \<mapsto> l, k \<mapsto> v), params = no_texts, body = no_fields\<rparr>"

definition body_request :: "row \<Rightarrow> request" where
  "body_request b = \<lparr>query = no_texts, params = no_texts, body = map_of b\<rparr>"

definition query_request :: "(string \<times> string) list \<Rightarrow> request" where
  "query_request q = \<lparr>query = map_of q, params = no_texts, body = no_fields\<rparr>"

definition params_request :: "(string \<times> string) list \<Rightarrow> request" where
  "params_request p = \<lparr>query = no_texts, params = map_of p, body = no_fields\<rparr>"

definition failing_world :: world where
  "failing_world = \<lparr>store = sample_db, outage = Some no_detail, issued = []\<rparr>"

definition undefined_book :: string where
  "undefined_book =
     ''{undefined} by [undefined] - ISBN: [undefined], published in [undefined], average rating: [undefined]''"

definition e21_request :: request where
  "e21_request =
     body_request [(''name'', Str ''dan''), (''message'', Str ''yo''),
                   (''priority'', Num 1000000000000000000000)]"


section \<open>Numerals and numbers\<close>

lemma eval_digits [simp]:
  "isDigit CHR ''0''" "isDigit CHR ''1''" "isDigit CHR ''2''" "isDigit CHR ''3''"
  "isDigit CHR ''4''" "isDigit CHR ''5''" "isDigit CHR ''6''" "isDigit CHR ''7''"
  "isDigit CHR ''8''" "isDigit CHR ''9''" "\<not> isDigit CHR ''-''"
  by (simp_all add: isDigit_def)

lemma digit_char_digit:
  "k < 10 \<Longrightarrow> isDigit (digit_char k) \<and> digit_val (digit_char k) = int k"
proof -
  assume "k < 10"
  then have "k \<in> {0, 1, 2, 3, 4, 5, 6, 7, 8, 9}" by auto
  then show ?thesis
    by (auto simp: digit_char_def isDigit_def digit_val_def)
qed

lemma digits_val_snoc: "digits_val (xs @ [c]) = 10 * digits_val xs + digit_val c"
  by (simp add: digits_val_def)

lemma show_digits_digits:
  "0 \<le> m \<Longrightarrow>
   show_digits m \<noteq> [] \<and> list_all isDigit (show_digits m) \<and> digits_val (show_digits m) = m"
proof (induction m rule: show_digits.induct)
  case (1 m)
  show ?case
  proof (cases "m < 10")
    case True
    with "1.prems" have "nat m < 10" and nat_inv: "int (nat m) = m" by simp_all
    with digit_char_digit [of "nat m"]
    have d: "isDigit (digit_char (nat m))" "digit_val (digit_char (nat m)) = m" by simp_all
    show ?thesis
      by (subst (1 2 3) show_digits.simps) (simp add: True digits_val_def d)
  next
    case False
    have small: "nat (m mod 10) < 10" and nat_inv: "int (nat (m mod 10)) = m mod 10"
      by simp_all
    from False "1.prems" have "0 \<le> m div 10" by simp
    with False "1.IH" have ih: "show_digits (m div 10) \<noteq> [] \<and>
        list_all isDigit (show_digits (m div 10)) \<and>
        digits_val (show_digits (m div 10)) = m div 10" by simp
    have "m = 10 * (m div 10) + m mod 10" by simp
    moreover have "isDigit (digit_char (nat (m mod 10)))"
      "digit_val (digit_char (nat (m mod 10))) = m mod 10"
      using digit_char_digit [OF small] nat_inv by simp_all
    ultimately show ?thesis
      using False ih by (subst (1 2 3) show_digits.simps) (simp add: digits_val_snoc)
  qed
qed

lemma split_sign_digits:
  "ds \<noteq> [] \<Longrightarrow> list_all isDigit ds \<Longrightarrow> split_sign ds = (False, ds)"
  by (cases ds) (auto simp: isDigit_def)

lemma int_literal_show_int: "int_literal (show_int n) = Some n"
proof (cases "n < 0")
  case True
  then have pos: "0 \<le> - n" by simp
  have "split_sign (show_int n) = (True, show_digits (- n))"
    using True by (simp add: show_int_def)
  then show ?thesis
    using show_digits_digits [OF pos] by (simp add: int_literal_def signed_def)
next
  case False
  then have pos: "0 \<le> n" by simp
  have "split_sign (show_int n) = (False, show_digits n)"
    using False show_digits_digits [OF pos] by (simp add: show_int_def split_sign_digits)
  then show ?thesis
    using show_digits_digits [OF pos] by (simp add: int_literal_def signed_def)
qed

text \<open>An integer up to \<open>2^53\<close> reaches the database as itself.\<close>

lemma sql_integer_exact:
  "\<bar>n\<bar> \<le> 9007199254740992 \<Longrightarrow> - bound - 1 \<le> n \<Longrightarrow> n \<le> bound \<Longrightarrow>
   sql_integer bound (number_text n) = Some n"
  by (simp add: sql_integer_def number_text_def int_literal_show_int)

lemma to_double_exact: "\<bar>n\<bar> < 9007199254740992 \<Longrightarrow> to_double n = Fin n"
proof -
  assume small: "\<bar>n\<bar> < 9007199254740992"
  have "(9007199254740992::int) \<le> 2 ^ 1024" by simp
  with small have "\<not> (2::int) ^ 1024 \<le> \<bar>n\<bar>" by linarith
  with small show ?thesis
    by (simp add: to_double_def round_double_def Let_def)
qed

lemma limit_of_pos: "limit_of req = Fin l \<Longrightarrow> 0 < l"
  by (auto simp: limit_of_def split: if_splits)

lemma offset_of_nonneg: "offset_of req = Fin off \<Longrightarrow> 0 \<le> off"
  by (auto simp: offset_of_def split: if_splits)

lemma cursor_of_nonneg: "cursor_of req = Fin c \<Longrightarrow> 0 \<le> c"
  by (auto simp: cursor_of_def split: if_splits)

section \<open>Pagination\<close>

lemma get_offset_up:
  assumes "outage w = None"
    and "limit_of req = Fin l" and "l \<le> 9007199254740992"
    and "offset_of req = Fin off" and "off \<le> 9007199254740992"
  shows "fst (libraryRouter_get_offset req w) =
      Sent (send (Paged
        (map (\<lambda>r. format_closed (demo_public r))
           (take (nat l) (drop (nat off) (sort_key demoid (demo (store w))))))
        [(''totalRecords'', Str (show_int (int (length (demo (store w)))))),
         (''limit'', Num l), (''offset'', Num off),
         (''nextPage'', num_val (to_double (l + off)))]))"
proof -
  have l: "0 < l" using assms(2) by (rule limit_of_pos)
  have off: "0 \<le> off" using assms(4) by (rule offset_of_nonneg)
  have pl: "sql_integer int8_max (number_text l) = Some l"
    using l assms(3) by (intro sql_integer_exact) (simp_all add: int8_max_def)
  have po: "sql_integer int8_max (number_text off) = Some off"
    using off assms(5) by (intro sql_integer_exact) (simp_all add: int8_max_def)
  show ?thesis
    using assms(1) l off
    by (simp add: libraryRouter_get_offset_def Let_def pool_query_def result_of_def comp_def
        assms(2) assms(4) pl po)
qed

lemma page_sorted: "sorted (map demoid (take n (drop k (sort_key demoid xs))))"
proof -
  have "sorted (map demoid (sort_key demoid xs))" by (rule sorted_sort_key)
  then have "sorted (drop k (map demoid (sort_key demoid xs)))" by (rule sorted_wrt_drop)
  then have "sorted (take n (drop k (map demoid (sort_key demoid xs))))" by (rule sorted_wrt_take)
  then show ?thesis by (simp add: take_map drop_map)
qed

text \<open>
  C3, as amended. With the database answering and a limit and an offset of at most
  \<open>2^53\<close>, GET /offset returns the rows of the table in ascending order of
  \<open>demoid\<close>, without the first \<open>offset\<close> of them and cut to at most \<open>limit\<close>;
  the pagination object carries the count of the whole table, the limit, the offset and as
  \<open>nextPage\<close> the double nearest to \<open>limit + offset\<close>, whatever the count is. The
  limit is the query's when it is a number above 0 and 10 otherwise; the offset is the
  query's when it is a number from 0 up and 0 otherwise.
\<close>

theorem offset_pagination:
  assumes "outage w = None"
    and "limit_of req = Fin l" and "l \<le> 9007199254740992"
    and "offset_of req = Fin off" and "off \<le> 9007199254740992"
    and "page = take (nat l) (drop (nat off) (sort_key demoid (demo (store w))))"
  shows "fst (libraryRouter_get_offset req w) =
           Sent (send (Paged (map (\<lambda>r. format_closed (demo_public r)) page)
             [(''totalRecords'', Str (show_int (int (length (demo (store w)))))),
              (''limit'', Num l), (''offset'', Num off),
              (''nextPage'', num_val (to_double (l + off)))])) \<and>
         length page \<le> nat l \<and>
         sorted (map demoid page) \<and>
         0 < l \<and> 0 \<le> off \<and>
         limit_of req =
           (if isNumberProvided (of_text (query req ''limit'')) \<and>
               num_above (toNumber (query req ''limit'')) 0
            then toNumber (query req ''limit'') else Fin 10) \<and>
         offset_of req =
           (if isNumberProvided (of_text (query req ''offset'')) \<and>
               num_from (toNumber (query req ''offset'')) 0
            then toNumber (query req ''offset'') else Fin 0)"
proof -
  have "fst (libraryRouter_get_offset req w) =
           Sent (send (Paged (map (\<lambda>r. format_closed (demo_public r)) page)
             [(''totalRecords'', Str (show_int (int (length (demo (store w)))))),
              (''limit'', Num l), (''offset'', Num off),
              (''nextPage'', num_val (to_double (l + off)))]))"
    using get_offset_up [OF assms(1-5)] assms(6) by simp
  moreover have "length page \<le> nat l"
    using assms(6) by simp
  moreover have "sorted (map demoid page)"
    unfolding assms(6) by (rule page_sorted)
  moreover have "0 < l" using assms(2) by (rule limit_of_pos)
  moreover have "0 \<le> off" using assms(4) by (rule offset_of_nonneg)
  ultimately show ?thesis
    by (simp add: limit_of_def [symmetric] offset_of_def [symmetric] assms(2) assms(4))
qed

lemmas eval_text =
  toNumber_def int_literal_def digits_val_def digit_val_def signed_def of_text_def


theorem offset_pagination_witness:
  "outage sample_world = None \<and>
   fst (libraryRouter_get_offset (paging_request ''2'' ''offset'' ''2'') sample_world) =
     Sent (send (Paged
       [ [(''name'', Str ''cat''), (''message'', Str ''hey''), (''priority'', Num 2),
         (''formatted'', Str ''{2} - [cat] says: hey'')]]
       [(''totalRecords'', Str ''3''), (''limit'', Num 2), (''offset'', Num 2),
        (''nextPage'', Num 4)]))"
proof -
  have up: "outage sample_world = None" by (simp add: sample_world_def)
  have lim: "limit_of (paging_request ''2'' ''offset'' ''2'') = Fin 2"
    by (simp add: limit_of_def paging_request_def no_texts_def eval_text to_double_exact)
  have off: "offset_of (paging_request ''2'' ''offset'' ''2'') = Fin 2"
    by (simp add: offset_of_def paging_request_def no_texts_def eval_text to_double_exact)
  have srt: "sort_key demoid (demo (store sample_world)) = sample_demo"
    by (simp add: sample_world_def sample_db_def sample_demo_def)
  have cnt: "show_int (int (length (demo (store sample_world)))) = ''3''"
    by (simp add: sample_world_def sample_db_def sample_demo_def show_int_def
        show_digits.simps digit_char_def)
  show ?thesis
    using offset_pagination [OF up lim _ off _ refl]
    unfolding srt cnt
    by (simp add: sample_world_def sample_demo_def format_closed_def
        demo_public_def number_text_def show_int_def show_digits.simps digit_char_def
        to_double_exact)
qed


lemma huge_limit:
  "limit_of (paging_request ''99999999999999999999'' ''offset'' ''0'') =
   Fin 100000000000000000000"
  by code_simp

lemma huge_limit_refused: "sql_integer int8_max (number_text 100000000000000000000) = None"
  by code_simp

lemma zero_offset: "offset_of (paging_request l ''offset'' ''0'') = Fin 0"
  by (simp add: offset_of_def paging_request_def eval_text to_double_exact)

lemma edge_limit:
  "limit_of (paging_request ''9007199254740992'' ''offset'' ''1'') = Fin 9007199254740992"
  by code_simp

lemma edge_offset: "offset_of (paging_request ''9007199254740992'' ''offset'' ''1'') = Fin 1"
  by code_simp

lemma edge_sum: "to_double (9007199254740992 + 1) = Fin 9007199254740992"
  by code_simp

lemma zone_limit:
  "limit_of (paging_request ''1152921504606846976'' ''offset'' ''0'') = Fin 1152921504606846976"
  by code_simp

lemma zone_limit_sent:
  "sql_integer int8_max (number_text 1152921504606846976) = Some 1152921504606847000"
  by code_simp

text \<open>
  C3, as stated, fails. A limit of 99999999999999999999 passes the check of the handler,
  the database refuses it as a 64-bit integer, and the rejection leaves the handler with
  nothing sent. With limit \<open>2^53\<close> and offset 1 the answer has \<open>nextPage = 2^53\<close>,
  which is not \<open>limit + offset\<close>. Above \<open>2^53\<close> the database is not asked for
  \<open>limit\<close> rows: for the limit \<open>2^60\<close> it reads 1152921504606847000.
\<close>

theorem offset_pagination_counterexample:
  "fst (libraryRouter_get_offset (paging_request ''99999999999999999999'' ''offset'' ''0'')
          sample_world) = Uncaught (Rejected no_detail) \<and>
   fst (libraryRouter_get_offset (paging_request ''9007199254740992'' ''offset'' ''1'')
          sample_world) =
     Sent (send (Paged
       [ [(''name'', Str ''bob''), (''message'', Str ''hi''), (''priority'', Num 2),
         (''formatted'', Str ''{2} - [bob] says: hi'')],
        [(''name'', Str ''cat''), (''message'', Str ''hey''), (''priority'', Num 2),
         (''formatted'', Str ''{2} - [cat] says: hey'')]]
       [(''totalRecords'', Str ''3''), (''limit'', Num 9007199254740992), (''offset'', Num 1),
        (''nextPage'', Num 9007199254740992)])) \<and>
   limit_of (paging_request ''1152921504606846976'' ''offset'' ''0'') =
     Fin 1152921504606846976 \<and>
   sql_integer int8_max
     (num_text (limit_of (paging_request ''1152921504606846976'' ''offset'' ''0''))) =
     Some 1152921504606847000"
proof -
  have up: "outage sample_world = None" by (simp add: sample_world_def)
  have a: "fst (libraryRouter_get_offset
             (paging_request ''99999999999999999999'' ''offset'' ''0'') sample_world) =
           Uncaught (Rejected no_detail)"
    by (simp add: libraryRouter_get_offset_def Let_def pool_query_def up huge_limit huge_limit_refused zero_offset)
  have srt: "sort_key demoid (demo (store sample_world)) = sample_demo"
    by (simp add: sample_world_def sample_db_def sample_demo_def)
  have cnt: "show_int (int (length (demo (store sample_world)))) = ''3''"
    by (simp add: sample_world_def sample_db_def sample_demo_def show_int_def
        show_digits.simps digit_char_def)
  have b: "fst (libraryRouter_get_offset
             (paging_request ''9007199254740992'' ''offset'' ''1'') sample_world) =
     Sent (send (Paged
       [ [(''name'', Str ''bob''), (''message'', Str ''hi''), (''priority'', Num 2),
         (''formatted'', Str ''{2} - [bob] says: hi'')],
        [(''name'', Str ''cat''), (''message'', Str ''hey''), (''priority'', Num 2),
         (''formatted'', Str ''{2} - [cat] says: hey'')]]
       [(''totalRecords'', Str ''3''), (''limit'', Num 9007199254740992), (''offset'', Num 1),
        (''nextPage'', Num 9007199254740992)]))"
    using get_offset_up [OF up edge_limit _ edge_offset]
    unfolding srt cnt edge_sum
    by (simp add: sample_demo_def format_closed_def demo_public_def number_text_def
        show_int_def show_digits.simps digit_char_def)
  show ?thesis
    using a b by (simp add: zone_limit zone_limit_sent)
qed


lemma strip_demoid_keyed: "strip_demoid (demo_keyed r) = demo_public r"
  by (simp add: strip_demoid_def demo_keyed_def demo_public_def)

lemma demoid_of_keyed: "map_of (demo_keyed r) ''demoid'' = Some (Num (demoid r))"
  by (simp add: demo_keyed_def demo_public_def)

lemma foldl_larger:
  "foldl larger (Some (Num a)) (map (\<lambda>r. Some (Num (demoid r))) xs) =
   Some (Num (fold max (map demoid xs) a))"
proof (induction xs arbitrary: a)
  case Nil
  show ?case by simp
next
  case (Cons x xs)
  have "larger (Some (Num a)) (Some (Num (demoid x))) = Some (Num (max (demoid x) a))"
    by (simp add: larger_def max_def)
  with Cons show ?case by simp
qed

lemma reduce_larger:
  assumes "page \<noteq> []"
  shows "reduce larger (map (\<lambda>r. map_of r ''demoid'') (map demo_keyed page)) =
         Some (Some (Num (Max (set (map demoid page)))))"
proof -
  obtain x xs where p: "page = x # xs" using assms by (cases page) auto
  have "Max (set (map demoid (x # xs))) = fold max (map demoid xs) (demoid x)"
    using Max.set_eq_fold [of "demoid x" "map demoid xs"] by simp
  then show ?thesis
    using foldl_larger [of "demoid x" xs] by (simp add: p demoid_of_keyed comp_def)
qed

lemma no_demoid_public: "''demoid'' \<notin> fst ` set (format_closed (demo_public r))"
  by (simp add: format_closed_def demo_public_def)

lemma count_query:
  "outage w = None \<Longrightarrow>
   pool_query CountDemo w =
     (Inr (result_of [ [(''exact_count'', Str (show_int (int (length (demo (store w))))))] ]),
      w\<lparr>issued := issued w @ [CountDemo]\<rparr>)"
  by (simp add: pool_query_def)

lemma get_cursor_up:
  assumes "outage w = None"
    and "limit_of req = Fin l" and "l \<le> 9007199254740992"
    and "cursor_of req = Fin c" and "c \<le> 9007199254740992" and "c \<le> demoid_max (store w)"
    and "page = take (nat l) (sort_key demoid (filter (\<lambda>r. c < demoid r) (demo (store w))))"
    and "page \<noteq> []"
  shows "fst (libraryRouter_get_cursor req w) =
      Sent (send (Paged (map (\<lambda>r. format_closed (demo_public r)) page)
        [(''totalRecords'', Str (show_int (int (length (demo (store w)))))),
         (''limit'', Num l),
         (''cursor'', Num (Max (set (map demoid page))))]))"
proof -
  have l: "0 < l" using assms(2) by (rule limit_of_pos)
  have c: "0 \<le> c" using assms(4) by (rule cursor_of_nonneg)
  have pl: "sql_integer int8_max (number_text l) = Some l"
    using l assms(3) by (intro sql_integer_exact) (simp_all add: int8_max_def)
  have pc: "sql_integer (demoid_max (store w)) (number_text c) = Some c"
    using c assms(5,6) by (intro sql_integer_exact) simp_all
  have q1: "pool_query (SelectCursor (Fin l) (Fin c)) w =
            (Inr (result_of (map demo_keyed page)),
             w\<lparr>issued := issued w @ [SelectCursor (Fin l) (Fin c)]\<rparr>)"
    using assms(1,7) l by (simp add: pool_query_def pl pc)
  have red: "reduce larger (map ((\<lambda>r. map_of r ''demoid'') \<circ> demo_keyed) page) =
             Some (Some (Num (Max (demoid ` set page))))"
    using reduce_larger [OF assms(8)] by simp
  have strip: "map (format_closed \<circ> (strip_demoid \<circ> demo_keyed)) page =
               map (\<lambda>r. format_closed (demo_public r)) page"
    by (simp add: strip_demoid_keyed comp_def)
  show ?thesis
    unfolding libraryRouter_get_cursor_def Let_def assms(2) assms(4) q1
    using assms(1) by (simp add: count_query result_of_def red strip)
qed

lemma page_after_cursor:
  "list_all (\<lambda>r. c < demoid r) (take n (sort_key demoid (filter (\<lambda>r. c < demoid r) xs)))"
proof -
  have "set (take n (sort_key demoid (filter (\<lambda>r. c < demoid r) xs))) \<subseteq>
        set (filter (\<lambda>r. c < demoid r) xs)"
    using set_take_subset [of n "sort_key demoid (filter (\<lambda>r. c < demoid r) xs)"] by simp
  then show ?thesis by (auto simp: list_all_iff)
qed

lemma cursor_page_sorted: "sorted (map demoid (take n (sort_key demoid xs)))"
  using page_sorted [of n 0 xs] by simp

text \<open>
  C1, as amended. With the database answering, a limit and a cursor of at most \<open>2^53\<close>,
  the cursor within the type of the key column, and a page that is not empty, GET /cursor
  returns the rows whose \<open>demoid\<close> is above the cursor, in ascending order of
  \<open>demoid\<close>, at most \<open>limit\<close> of them, each without its \<open>demoid\<close> field;
  \<open>pagination.cursor\<close> is the largest \<open>demoid\<close> of the page. The limit is the
  query's when it is a number above 0 and 10 otherwise; the cursor is the query's when it
  is a number from 0 up and 0 otherwise.
\<close>

theorem cursor_pagination:
  assumes "outage w = None"
    and "limit_of req = Fin l" and "l \<le> 9007199254740992"
    and "cursor_of req = Fin c" and "c \<le> 9007199254740992" and "c \<le> demoid_max (store w)"
    and "page = take (nat l) (sort_key demoid (filter (\<lambda>r. c < demoid r) (demo (store w))))"
    and "page \<noteq> []"
  shows "fst (libraryRouter_get_cursor req w) =
           Sent (send (Paged (map (\<lambda>r. format_closed (demo_public r)) page)
             [(''totalRecords'', Str (show_int (int (length (demo (store w)))))),
              (''limit'', Num l),
              (''cursor'', Num (Max (set (map demoid page))))])) \<and>
         list_all (\<lambda>r. c < demoid r) page \<and>
         sorted (map demoid page) \<and>
         length page \<le> nat l \<and>
         list_all (\<lambda>r. ''demoid'' \<notin> fst ` set (format_closed (demo_public r))) page \<and>
         0 < l \<and> 0 \<le> c \<and>
         limit_of req =
           (if isNumberProvided (of_text (query req ''limit'')) \<and>
               num_above (toNumber (query req ''limit'')) 0
            then toNumber (query req ''limit'') else Fin 10) \<and>
         cursor_of req =
           (if isNumberProvided (of_text (query req ''cursor'')) \<and>
               num_from (toNumber (query req ''cursor'')) 0
            then toNumber (query req ''cursor'') else Fin 0)"
proof -
  have "fst (libraryRouter_get_cursor req w) =
           Sent (send (Paged (map (\<lambda>r. format_closed (demo_public r)) page)
             [(''totalRecords'', Str (show_int (int (length (demo (store w)))))),
              (''limit'', Num l),
              (''cursor'', Num (Max (set (map demoid page))))]))"
    by (rule get_cursor_up [OF assms])
  moreover have "list_all (\<lambda>r. c < demoid r) page"
    unfolding assms(7) by (rule page_after_cursor)
  moreover have "sorted (map demoid page)"
    unfolding assms(7) by (rule cursor_page_sorted)
  moreover have "length page \<le> nat l"
    using assms(7) by simp
  moreover have "list_all (\<lambda>r. ''demoid'' \<notin> fst ` set (format_closed (demo_public r))) page"
    using no_demoid_public by (simp add: list_all_iff)
  moreover have "0 < l" using assms(2) by (rule limit_of_pos)
  moreover have "0 \<le> c" using assms(4) by (rule cursor_of_nonneg)
  ultimately show ?thesis
    by (simp add: limit_of_def [symmetric] cursor_of_def [symmetric] assms(2) assms(4))
qed

lemma sample_limit: "limit_of (paging_request ''2'' ''cursor'' ''1'') = Fin 2"
  by code_simp

lemma sample_cursor: "cursor_of (paging_request ''2'' ''cursor'' ''1'') = Fin 1"
  by code_simp

theorem cursor_pagination_witness:
  "outage sample_world = None \<and>
   fst (libraryRouter_get_cursor (paging_request ''2'' ''cursor'' ''1'') sample_world) =
     Sent (send (Paged
       [ [(''name'', Str ''bob''), (''message'', Str ''hi''), (''priority'', Num 2),
         (''formatted'', Str ''{2} - [bob] says: hi'')],
        [(''name'', Str ''cat''), (''message'', Str ''hey''), (''priority'', Num 2),
         (''formatted'', Str ''{2} - [cat] says: hey'')]]
       [(''totalRecords'', Str ''3''), (''limit'', Num 2), (''cursor'', Num 4)]))"
proof -
  have up: "outage sample_world = None" by (simp add: sample_world_def)
  have bound: "(1::int) \<le> demoid_max (store sample_world)"
    by (simp add: sample_world_def sample_db_def)
  have page: "take (nat 2) (sort_key demoid (filter (\<lambda>r. 1 < demoid r) (demo (store sample_world)))) =
              [\<lparr>demoid = 2, name = ''bob'', message = ''hi'', priority = 2\<rparr>,
               \<lparr>demoid = 4, name = ''cat'', message = ''hey'', priority = 2\<rparr>]"
    by (simp add: sample_world_def sample_db_def sample_demo_def)
  have cnt: "show_int (int (length (demo (store sample_world)))) = ''3''"
    by (simp add: sample_world_def sample_db_def sample_demo_def show_int_def
        show_digits.simps digit_char_def)
  show ?thesis
    using cursor_pagination [OF up sample_limit _ sample_cursor _ bound refl]
    unfolding page cnt
    by (simp add: up format_closed_def demo_public_def number_text_def show_int_def
        show_digits.simps digit_char_def)
qed

lemma huge_limit_cursor:
  "limit_of (paging_request ''99999999999999999999'' ''cursor'' ''0'') =
   Fin 100000000000000000000"
  by code_simp

lemma zone_limit_cursor:
  "limit_of (paging_request ''1152921504606846976'' ''cursor'' ''0'') = Fin 1152921504606846976"
  by code_simp

lemma wide_cursor: "cursor_of (paging_request ''2'' ''cursor'' ''2147483648'') = Fin 2147483648"
  by code_simp

lemma wide_cursor_refused: "sql_integer 2147483647 (number_text 2147483648) = None"
  by code_simp

lemma two_rows_asked: "sql_integer int8_max (number_text 2) = Some 2"
  by code_simp

lemma sample_limit_wide: "limit_of (paging_request ''2'' ''cursor'' ''2147483648'') = Fin 2"
  by code_simp

text \<open>
  C1, as stated, fails. A limit of 99999999999999999999 passes the check of the handler,
  the database refuses it as a 64-bit integer, and the rejection leaves the handler with
  nothing sent; so does a cursor beyond the type of the key column. Above \<open>2^53\<close> the
  database is not asked for \<open>limit\<close> rows: for the limit \<open>2^60\<close> it reads
  1152921504606847000.
\<close>

theorem cursor_pagination_counterexample:
  "fst (libraryRouter_get_cursor (paging_request ''99999999999999999999'' ''cursor'' ''0'')
          sample_world) = Uncaught (Rejected no_detail) \<and>
   fst (libraryRouter_get_cursor (paging_request ''2'' ''cursor'' ''2147483648'')
          sample_world) = Uncaught (Rejected no_detail) \<and>
   limit_of (paging_request ''1152921504606846976'' ''cursor'' ''0'') =
     Fin 1152921504606846976 \<and>
   sql_integer int8_max (number_text 1152921504606846976) = Some 1152921504606847000"
proof -
  have up: "outage sample_world = None" by (simp add: sample_world_def)
  have a: "fst (libraryRouter_get_cursor
             (paging_request ''99999999999999999999'' ''cursor'' ''0'') sample_world) =
           Uncaught (Rejected no_detail)"
    by (simp add: libraryRouter_get_cursor_def Let_def pool_query_def up huge_limit_cursor
        huge_limit_refused)
  have b: "fst (libraryRouter_get_cursor
             (paging_request ''2'' ''cursor'' ''2147483648'') sample_world) =
           Uncaught (Rejected no_detail)"
    by (simp add: libraryRouter_get_cursor_def Let_def pool_query_def up sample_limit_wide
        wide_cursor wide_cursor_refused two_rows_asked sample_world_def sample_db_def)
  show ?thesis
    using a b by (simp add: zone_limit_cursor zone_limit_sent)
qed

text \<open>With no \<open>demoid\<close> above the cursor the page query returns no row.\<close>

lemma no_row_above_cursor:
  assumes "outage w = None"
    and "limit_of req = Fin l" and "l \<le> 9007199254740992"
    and "cursor_of req = Fin c" and "c \<le> 9007199254740992" and "c \<le> demoid_max (store w)"
    and "list_all (\<lambda>r. demoid r \<le> c) (demo (store w))"
  shows "pool_query (SelectCursor (limit_of req) (cursor_of req)) w =
           (Inr (result_of []), w\<lparr>issued := issued w @ [SelectCursor (Fin l) (Fin c)]\<rparr>)"
proof -
  have l: "0 < l" using assms(2) by (rule limit_of_pos)
  have c: "0 \<le> c" using assms(4) by (rule cursor_of_nonneg)
  have pl: "sql_integer int8_max (number_text l) = Some l"
    using l assms(3) by (intro sql_integer_exact) (simp_all add: int8_max_def)
  have pc: "sql_integer (demoid_max (store w)) (number_text c) = Some c"
    using c assms(5,6) by (intro sql_integer_exact) simp_all
  have none: "filter (\<lambda>r. c < demoid r) (demo (store w)) = []"
    using assms(7) by (auto simp: list_all_iff filter_empty_conv)
  show ?thesis
    using assms(1) l by (simp add: assms(2) assms(4) pool_query_def pl pc none)
qed

text \<open>
  C2. When the page query of GET /cursor returns no row, as it does when no row has a
  \<open>demoid\<close> above the cursor, \<^verbatim>\<open>reduce\<close> has nothing to start from, and the handler
  ends in a TypeError with no response sent.
\<close>

theorem cursor_empty_page_errors:
  assumes "pool_query (SelectCursor (limit_of req) (cursor_of req)) w = (Inr res, w1)"
    and "rows res = []"
  shows "reduce larger (map (\<lambda>r. map_of r ''demoid'') (rows res)) = None \<and>
         fst (libraryRouter_get_cursor req w) = Uncaught TypeError"
proof -
  have up: "outage w = None"
    using assms(1) by (cases "outage w") (simp_all add: pool_query_def)
  have w1: "outage w1 = None"
    using assms(1) up by (auto simp: pool_query_def split: prod.splits)
  show ?thesis
    unfolding libraryRouter_get_cursor_def Let_def assms(1)
    using w1 assms(2) by (simp add: count_query result_of_def)
qed

lemma past_the_last_key:
  "cursor_of (paging_request ''2'' ''cursor'' ''4'') = Fin 4"
  "limit_of (paging_request ''2'' ''cursor'' ''4'') = Fin 2"
  "sql_integer int8_max (number_text 2) = Some 2"
  "sql_integer 2147483647 (number_text 4) = Some 4"
  by code_simp+

theorem cursor_empty_page_errors_witness:
  "list_all (\<lambda>r. demoid r \<le> 4) (demo (store sample_world)) \<and>
   fst (libraryRouter_get_cursor (paging_request ''2'' ''cursor'' ''4'') sample_world) =
     Uncaught TypeError"
proof -
  have q: "pool_query (SelectCursor (limit_of (paging_request ''2'' ''cursor'' ''4''))
                         (cursor_of (paging_request ''2'' ''cursor'' ''4''))) sample_world =
           (Inr (result_of []),
            sample_world\<lparr>issued := [SelectCursor (Fin 2) (Fin 4)]\<rparr>)"
    by (simp add: past_the_last_key pool_query_def sample_world_def sample_db_def sample_demo_def)
  have none: "rows (result_of []) = []" by (simp add: result_of_def)
  show ?thesis
    using cursor_empty_page_errors [OF q none]
    by (simp add: sample_world_def sample_db_def sample_demo_def)
qed


section \<open>Validation\<close>

text \<open>
  Create (on both routers) and delete-by-priority run their checks in the order of
  registration. The first check that fails sends its own 400 message and hands back the
  world as it was: the tables and the list of issued statements are untouched, whatever
  the later checks would say.
\<close>

lemma validation_cascade:
  "messageRouter_post req w =
     (if \<not> (isStringProvided (body req ''name'') \<and> isStringProvided (body req ''message''))
      then (Sent missing_information, w)
      else if \<not> (isNumberProvided (body req ''priority'') \<and>
                  num_ge (parseInt (body req ''priority'')) 1 \<and>
                  num_le (parseInt (body req ''priority'')) 3)
      then (Sent invalid_priority, w)
      else messageRouter_post_insert req w) \<and>
   libraryRouter_post req w =
     (if \<not> (isStringProvided (body req ''name'') \<and> isStringProvided (body req ''message''))
      then (Sent missing_information, w)
      else if \<not> (isNumberProvided (body req ''priority'') \<and>
                  num_ge (parseInt (body req ''priority'')) 1 \<and>
                  num_le (parseInt (body req ''priority'')) 3)
      then (Sent invalid_priority, w)
      else libraryRouter_post_insert req w) \<and>
   messageRouter_delete req w =
     (if \<not> (isNumberProvided (of_text (query req ''priority'')) \<and>
             num_ge (parseInt (of_text (query req ''priority''))) 1 \<and>
             num_le (parseInt (of_text (query req ''priority''))) 3)
      then (Sent invalid_priority, w)
      else messageRouter_delete_query req w)"
  by (simp add: messageRouter_post_def libraryRouter_post_def messageRouter_delete_def
      mwValidNameMessageBody_def messageRouter_post_priority_def libraryRouter_post_body_def
      libraryRouter_post_priority_def mwValidPriorityQuery_def final_def)

text \<open>A priority given as a numeral is let through exactly when it names 1, 2 or 3.\<close>

lemma takeWhile_digits: "list_all isDigit ds \<Longrightarrow> takeWhile isDigit ds = ds"
  by (simp add: list_all_iff)

lemma parseInt_str_literal: "int_literal s = Some n \<Longrightarrow> parseInt_str s = Some n"
  by (auto simp: int_literal_def parseInt_str_def takeWhile_digits split: prod.splits if_splits)

lemma priority_numeral:
  "(isNumberProvided (Some (Str s)) \<and> num_ge (parseInt (Some (Str s))) 1 \<and>
    num_le (parseInt (Some (Str s))) 3) =
   (int_literal s \<in> {Some 1, Some 2, Some 3})"
proof (cases "int_literal s")
  case None
  then show ?thesis by simp
next
  case (Some n)
  with parseInt_str_literal [OF Some] show ?thesis
    by (auto simp: parseInt_def)
qed

lemma e21_text: "number_text 1000000000000000000000 = ''1e+21''"
  by code_simp

lemma e21_leading_digit: "parseInt_str ''1e+21'' = Some 1"
  by code_simp

lemma e21_refused: "sql_integer int4_max ''1e+21'' = None"
  by code_simp

lemma seven: "parseInt_str ''7'' = Some 7"
  by code_simp

text \<open>
  C4. A JSON body with the priority \<^verbatim>\<open>1e21\<close> is a number, and \<^verbatim>\<open>parseInt\<close> reads
  the leading 1 of its text \<^verbatim>\<open>1e+21\<close>: both routers let it through, the INSERT is
  issued, the database refuses the parameter, and the answer is 500. The priority
  \<^verbatim>\<open>7\<close> is answered with 400 and the world untouched.
\<close>

theorem priority_e21_reaches_database:
  "messageRouter_post e21_request sample_world =
     (Sent server_error,
      sample_world\<lparr>issued :=
        [InsertDemo (Some (Str ''dan'')) (Some (Str ''yo''))
           (Some (Num 1000000000000000000000))]\<rparr>) \<and>
   libraryRouter_post e21_request sample_world =
     (Sent server_error,
      sample_world\<lparr>issued :=
        [InsertDemo (Some (Str ''dan'')) (Some (Str ''yo''))
           (Some (Num 1000000000000000000000))]\<rparr>) \<and>
   messageRouter_post
     (body_request [(''name'', Str ''dan''), (''message'', Str ''yo''), (''priority'', Str ''7'')])
     sample_world = (Sent invalid_priority, sample_world)"
  by (simp add: messageRouter_post_def libraryRouter_post_def mwValidNameMessageBody_def
      messageRouter_post_priority_def libraryRouter_post_body_def libraryRouter_post_priority_def
      messageRouter_post_insert_def libraryRouter_post_insert_def final_def e21_request_def
      body_request_def parseInt_def e21_text e21_leading_digit e21_refused seven
      pool_query_def sample_world_def ends_already_exists_def ends_exists_def no_detail_def
      int_literal_def)


section \<open>Books\<close>


lemma chain_final: "chain (final h # hs) req w = h req w"
  by (simp add: final_def)



lemma filter_unique_isbn13:
  "distinct (map isbn13 bs) \<Longrightarrow>
   filter (\<lambda>b. s = isbn13 b) bs =
     (case find (\<lambda>b. isbn13 b = s) bs of None \<Rightarrow> [] | Some b \<Rightarrow> [b])"
proof (induction bs)
  case Nil
  show ?case by simp
next
  case (Cons x xs)
  show ?case
  proof (cases "isbn13 x = s")
    case True
    with Cons.prems have "s \<notin> isbn13 ` set xs" by auto
    then have "filter (\<lambda>b. s = isbn13 b) xs = []"
      by (auto simp: filter_empty_conv)
    with True show ?thesis by simp
  next
    case False
    with Cons show ?thesis by auto
  qed
qed

text \<open>
  C9, as amended. With the database answering and no isbn13 stored twice, GET
  /isbn13/:isbn13 answers 400 when the parameter does not read as an integer or is not 13
  characters long; otherwise 404 with the isbn13 message when no book has that isbn13, and
  200 with the five columns of the book when one has.
\<close>

theorem isbn13_lookup:
  assumes "outage w = None"
    and "distinct (map isbn13 (books (store w)))"
    and "params req ''isbn13'' = Some s"
  shows "fst (messageRouter_get_isbn13 req w) =
     (if int_literal s = None \<or> length s \<noteq> 13 then Sent invalid_isbn13
      else case find (\<lambda>b. isbn13 b = s) (books (store w)) of
             None \<Rightarrow> Sent isbn13_not_found
           | Some b \<Rightarrow> Sent (send (Entry_row (book_row b))))"
proof (cases "int_literal s = None \<or> length s \<noteq> 13")
  case True
  then show ?thesis
    using assms(3)
    by (auto simp: messageRouter_get_isbn13_def myValidIsbn13Param_def of_text_def)
next
  case False
  then have pass: "messageRouter_get_isbn13 req w = messageRouter_get_isbn13_query req w"
    using assms(3)
    by (auto simp: messageRouter_get_isbn13_def myValidIsbn13Param_def final_def of_text_def)
  have q: "pool_query (BookByIsbn (of_text (params req ''isbn13''))) w =
           (Inr (result_of (map book_row
              (case find (\<lambda>b. isbn13 b = s) (books (store w)) of None \<Rightarrow> [] | Some b \<Rightarrow> [b]))),
            w\<lparr>issued := issued w @ [BookByIsbn (of_text (params req ''isbn13''))]\<rparr>)"
    using assms by (simp add: pool_query_def filter_unique_isbn13 of_text_def)
  show ?thesis
  proof (cases "find (\<lambda>b. isbn13 b = s) (books (store w))")
    case None
    with False show ?thesis
      by (auto simp: pass messageRouter_get_isbn13_query_def q result_of_def)
  next
    case (Some b)
    with False show ?thesis
      by (auto simp: pass messageRouter_get_isbn13_query_def q result_of_def)
  qed
qed

theorem isbn13_lookup_witness:
  "fst (messageRouter_get_isbn13 (params_request [(''isbn13'', ''9780439023480'')])
          sample_world) =
     Sent (send (Entry_row
       [(''isbn13'', Str ''9780439023480''), (''authors'', Str ''Suzanne Collins''),
        (''publication_year'', Num 2008), (''title'', Str ''The Hunger Games''),
        (''rating_avg'', Num 4)]))"
proof -
  have up: "outage sample_world = None" by (simp add: sample_world_def)
  have dist: "distinct (map isbn13 (books (store sample_world)))"
    by (simp add: sample_world_def sample_db_def sample_books_def)
  have par: "params (params_request [(''isbn13'', ''9780439023480'')]) ''isbn13'' =
             Some ''9780439023480''"
    by (simp add: params_request_def)
  have lit: "int_literal ''9780439023480'' \<noteq> None"
    by (simp add: int_literal_def)
  show ?thesis
    using isbn13_lookup [OF up dist par] lit
    by (simp add: sample_world_def sample_db_def sample_books_def book_row_def)
qed

text \<open>
  C9, as stated, fails: a minus sign and twelve digits is not a string of 13 digits, yet
  it reads as an integer and has 13 characters, so the check lets it through and the
  lookup answers 404, not 400.
\<close>

theorem isbn13_signed_counterexample:
  "\<not> list_all isDigit ''-123456789012'' \<and>
   fst (messageRouter_get_isbn13 (params_request [(''isbn13'', ''-123456789012'')])
          sample_world) = Sent isbn13_not_found \<and>
   status isbn13_not_found \<noteq> 400"
  by (simp add: messageRouter_get_isbn13_def myValidIsbn13Param_def final_def
      messageRouter_get_isbn13_query_def pool_query_def result_of_def params_request_def
      int_literal_def sample_world_def sample_db_def sample_books_def isbn13_not_found_def
      status_send_def of_text_def)

section \<open>The handlers at concrete requests\<close>


lemmas eval_handlers =
  pool_query_def result_of_def sample_world_def failing_world_def sample_db_def sample_demo_def
  body_request_def query_request_def params_request_def paging_request_def no_fields_def
  no_texts_def of_text_def final_def send_def status_send_def server_error_def no_detail_def

lemmas eval_numbers =
  int_literal_def digits_val_def digit_val_def signed_def parseInt_def parseInt_str_def
  number_text_def show_int_def show_digits.simps digit_char_def sql_integer_def int4_max_def

text \<open>
  C5. With the database rejecting every query, GET /offset and GET /cursor end with the
  rejection leaving the handler and no response sent; DELETE /:name of the same router,
  whose query sits in a \<^verbatim>\<open>try\<close>, answers 500.
\<close>

theorem paging_rejection_uncaught:
  "fst (libraryRouter_get_offset (paging_request ''2'' ''offset'' ''0'') failing_world) =
     Uncaught (Rejected no_detail) \<and>
   fst (libraryRouter_get_cursor (paging_request ''2'' ''cursor'' ''0'') failing_world) =
     Uncaught (Rejected no_detail) \<and>
   fst (libraryRouter_delete_name (params_request [(''name'', ''ann'')]) failing_world) =
     Sent server_error"
  by (simp add: libraryRouter_get_offset_def libraryRouter_get_cursor_def
      libraryRouter_delete_name_def Let_def pool_query_def failing_world_def)

text \<open>
  C6. Creating a message with a fresh name on the message router answers 201 with the
  book format applied to a message row, every column of it \<^verbatim>\<open>undefined\<close>; the same
  request on the library router answers 201 with the row and
  \<^verbatim>\<open>{3} - [dan] says: yo\<close>.
\<close>

theorem create_answers_book_format:
  "fst (messageRouter_post
         (body_request [(''name'', Str ''dan''), (''message'', Str ''yo''), (''priority'', Str ''3'')])
         sample_world) =
     Sent (status_send 201 (Entry_text undefined_book)) \<and>
   fst (libraryRouter_post
         (body_request [(''name'', Str ''dan''), (''message'', Str ''yo''), (''priority'', Str ''3'')])
         sample_world) =
     Sent (status_send 201 (Entry_row
       [(''demoid'', Num 5), (''name'', Str ''dan''), (''message'', Str ''yo''),
        (''priority'', Num 3), (''formatted'', Str ''{3} - [dan] says: yo'')]))"
  by (simp add: messageRouter_post_def libraryRouter_post_def mwValidNameMessageBody_def
      messageRouter_post_priority_def libraryRouter_post_body_def libraryRouter_post_priority_def
      messageRouter_post_insert_def libraryRouter_post_insert_def format_def format_closed_def
      demo_star_def demo_public_def undefined_book_def eval_handlers eval_numbers)

text \<open>
  C7. Deleting a stored name on the message router answers 200 with \<^verbatim>\<open>Deleted: \<close>
  followed by the book format of a message row, every column of it \<^verbatim>\<open>undefined\<close>;
  the library router answers \<^verbatim>\<open>Deleted: {1} - [ann] says: hello\<close>. Deleting by
  priority answers one such book string for each deleted row.
\<close>

theorem delete_answers_book_format:
  "fst (messageRouter_delete_name (params_request [(''name'', ''ann'')]) sample_world) =
     Sent (send (Entry_text (''Deleted: '' @ undefined_book))) \<and>
   fst (libraryRouter_delete_name (params_request [(''name'', ''ann'')]) sample_world) =
     Sent (send (Entry_text ''Deleted: {1} - [ann] says: hello'')) \<and>
   fst (messageRouter_delete (query_request [(''priority'', ''2'')]) sample_world) =
     Sent (send (Entries_text [undefined_book, undefined_book]))"
  by (simp add: messageRouter_delete_name_def libraryRouter_delete_name_def
      messageRouter_delete_def messageRouter_delete_query_def mwValidPriorityQuery_def
      format_def format_closed_def demo_star_def demo_public_def undefined_book_def
      eval_handlers eval_numbers)

text \<open>
  What PUT does to the table, for any request that passes the check of the body: the rows
  of that name get the new message and nothing else changes; an unknown name answers 404
  and leaves the tables as they were.
\<close>

lemma put_passes_checks:
  assumes "body req ''name'' = Some (Str n)" and "body req ''message'' = Some (Str m)"
    and "n \<noteq> []" and "m \<noteq> []"
  shows "messageRouter_put req w = messageRouter_put_update req w"
  using assms by (simp add: messageRouter_put_def mwValidNameMessageBody_def final_def)

lemma put_changes_message_only:
  assumes "outage w = None"
    and "body req ''name'' = Some (Str n)" and "body req ''message'' = Some (Str m)"
    and "n \<noteq> []" and "m \<noteq> []"
  shows "demo (store (snd (messageRouter_put req w))) =
           map (\<lambda>r. if name r = n then r\<lparr>message := m\<rparr> else r) (demo (store w))"
proof -
  have eq: "(\<lambda>r. if n = name r then r\<lparr>message := m\<rparr> else r) =
            (\<lambda>r. if name r = n then r\<lparr>message := m\<rparr> else r)"
    by auto
  show ?thesis
    unfolding put_passes_checks [OF assms(2-5)]
    using assms(1-3)
    by (simp add: messageRouter_put_update_def pool_query_def eq
        split: list.splits)
qed

lemma put_unknown_name:
  assumes "outage w = None"
    and "body req ''name'' = Some (Str n)" and "body req ''message'' = Some (Str m)"
    and "n \<noteq> []" and "m \<noteq> []"
    and "n \<notin> set (map name (demo (store w)))"
  shows "fst (messageRouter_put req w) = Sent name_not_found \<and>
         store (snd (messageRouter_put req w)) = store w"
proof -
  have none: "filter (\<lambda>r. n = name r) (demo (store w)) = []"
    using assms(6) by (auto simp: filter_empty_conv)
  have same: "map (\<lambda>r. if n = name r then r\<lparr>message := m\<rparr> else r) (demo (store w)) =
              demo (store w)"
    using assms(6) by (intro map_idI) auto
  show ?thesis
    unfolding put_passes_checks [OF assms(2-5)]
    using assms(1-3)
    by (simp add: messageRouter_put_update_def pool_query_def result_of_def none same)
qed

text \<open>
  C8. Updating the message of a stored name changes the message of that row alone, and
  answers 200 with \<^verbatim>\<open>Updated: \<close> followed by the book format of a message row,
  every column of it \<^verbatim>\<open>undefined\<close>: nothing of the updated record is in the answer.
\<close>

theorem update_answers_book_format:
  "messageRouter_put (body_request [(''name'', Str ''bob''), (''message'', Str ''new'')])
     sample_world =
     (Sent (send (Entry_text (''Updated: '' @ undefined_book))),
      \<lparr>store = \<lparr>demo =
          [\<lparr>demoid = 1, name = ''ann'', message = ''hello'', priority = 1\<rparr>,
           \<lparr>demoid = 2, name = ''bob'', message = ''new'', priority = 2\<rparr>,
           \<lparr>demoid = 4, name = ''cat'', message = ''hey'', priority = 2\<rparr>],
         demo_seq = 5, demoid_max = 2147483647, books = sample_books\<rparr>,
       outage = None,
       issued = [UpdateMessage (Some (Str ''new'')) (Some (Str ''bob''))]\<rparr>)"
  by (simp add: messageRouter_put_def messageRouter_put_update_def mwValidNameMessageBody_def
      format_def demo_star_def demo_public_def undefined_book_def eval_handlers)

end
